theory Spec2Isabelle
  imports Main
begin

section \<open>Debugger values\<close>

text \<open>
  The formatters of \<^verbatim>\<open>LLDB_Formatters/linear.py\<close> read the inspected process through
  the debugger's value objects. A type knows whether it is a pointer, its byte size and its
  pointee type; a pointee type that is not valid (falsy in Python) is \<open>None\<close>.
\<close>

datatype sbtype = SBType (IsPointerType: bool) (GetByteSize: nat) (GetPointeeType: "sbtype option")

text \<open>
  A value carries its validity flag, its type, its content read as an unsigned integer, its
  named children in declaration order and its textual rendering (\<open>None\<close> when it has none).
\<close>

datatype sbvalue = SBValue (IsValid: bool) (GetType: sbtype) (GetValueAsUnsigned: nat)
  (children: "(string \<times> sbvalue) list") (rendering: "string option")

definition invalid_type :: sbtype where
  "invalid_type = SBType False 0 None"

definition invalid_value :: sbvalue where
  "invalid_value = SBValue False invalid_type 0 [] None"

definition GetNumChildren :: "sbvalue \<Rightarrow> nat" where
  "GetNumChildren v = length (children v)"

definition GetChildAtIndex :: "sbvalue \<Rightarrow> nat \<Rightarrow> sbvalue" where
  "GetChildAtIndex v i = (if i < length (children v) then snd (children v ! i) else invalid_value)"

definition GetChildMemberWithName :: "sbvalue \<Rightarrow> string \<Rightarrow> sbvalue" where
  "GetChildMemberWithName v name =
     (case map_of (children v) name of None \<Rightarrow> invalid_value | Some c \<Rightarrow> c)"

text \<open>
  Python's truth test on a value that may be \<^verbatim>\<open>None\<close>: \<^verbatim>\<open>None\<close> is false, and a value
  object is true exactly when it is valid.
\<close>

definition truthy :: "sbvalue option \<Rightarrow> bool" where
  "truthy x = (case x of None \<Rightarrow> False | Some v \<Rightarrow> IsValid v)"

datatype py_exception = ZeroDivisionError | Exception string

text \<open>Python's \<^verbatim>\<open>a // b\<close> raises on a zero divisor and rounds to the floor otherwise.\<close>

definition py_floordiv :: "int \<Rightarrow> int \<Rightarrow> py_exception + int" where
  "py_floordiv a b = (if b = 0 then Inl ZeroDivisionError else Inr (a div b))"

section \<open>Helpers of the package\<close>

text \<open>
  Modelled from the spec: \<^verbatim>\<open>get_child_member_by_names\<close> of \<^verbatim>\<open>helpers.py\<close> is not part of
  the sources at hand. The specification's \<^verbatim>\<open>resolveField\<close> tries each name in order against
  the value's declared children and returns the first structurally present and valid child;
  an unknown name never raises, and no match is absence.
\<close>

fun get_child_member_by_names :: "sbvalue \<Rightarrow> string list \<Rightarrow> sbvalue option" where
  "get_child_member_by_names v [] = None"
| "get_child_member_by_names v (name # names) =
     (let child = GetChildMemberWithName v name
      in if IsValid child then Some child else get_child_member_by_names v names)"

text \<open>
  Modelled from the spec: \<^verbatim>\<open>get_raw_pointer\<close> of \<^verbatim>\<open>helpers.py\<close> is not part of the sources
  at hand. The specification's \<^verbatim>\<open>readPointer\<close> returns 0 if the handle is invalid, not a
  pointer-shaped value, or unreadable (an unreadable value reads as 0 already), and the
  address otherwise; it never signals an error.
\<close>

definition get_raw_pointer :: "sbvalue \<Rightarrow> int" where
  "get_raw_pointer v =
     (if IsValid v \<and> IsPointerType (GetType v) then int (GetValueAsUnsigned v) else 0)"

text \<open>
  Modelled from the spec: \<^verbatim>\<open>get_value_summary\<close> of \<^verbatim>\<open>helpers.py\<close> is not part of the
  sources at hand. The specification's \<^verbatim>\<open>renderScalar\<close> produces the textual rendering of a
  value, or the bracketed marker \<^verbatim>\<open>[unavailable]\<close> when rendering is impossible (no value,
  an invalid value, or a value without a rendering).
\<close>

definition get_value_summary :: "sbvalue option \<Rightarrow> string" where
  "get_value_summary x =
     (case x of
        None \<Rightarrow> ''[unavailable]''
      | Some v \<Rightarrow>
          if \<not> IsValid v then ''[unavailable]''
          else (case rendering v of None \<Rightarrow> ''[unavailable]'' | Some s \<Rightarrow> s))"

text \<open>
  The colour table \<^verbatim>\<open>Colors\<close>, the switch \<^verbatim>\<open>should_use_colors()\<close> and the global
  \<^verbatim>\<open>g_config.summary_max_items\<close> are read-only inputs of one computation.
\<close>

record config =
  use_colors :: bool
  GREEN :: string
  RESET :: string
  YELLOW :: string
  RED :: string
  BOLD_CYAN :: string
  summary_max_items :: int

text \<open>
  The debugger's \<^verbatim>\<open>CreateValueFromAddress(name, address, type)\<close>: the inspected memory is a
  function that gives the value synthesized at an address, or the exception it raises.
\<close>

type_synonym memory = "string \<Rightarrow> int \<Rightarrow> sbtype \<Rightarrow> py_exception + sbvalue"

section \<open>Python strings\<close>

text \<open>The digits of a natural number in base \<open>b\<close>, for the bases 10 and 16 used below.\<close>

definition digit_char :: "nat \<Rightarrow> char" where
  "digit_char d = ''0123456789abcdef'' ! d"

fun digits :: "nat \<Rightarrow> nat \<Rightarrow> string" where
  "digits b n = (if b < 2 \<or> n < b then [digit_char n] else digits b (n div b) @ [digit_char (n mod b)])"

declare digits.simps [simp del]

text \<open>\<^verbatim>\<open>str(n)\<close> and the format \<^verbatim>\<open>{n:x}\<close> of a Python integer.\<close>

definition str_int :: "int \<Rightarrow> string" where
  "str_int n = (if n < 0 then ''-'' @ digits 10 (nat (- n)) else digits 10 (nat n))"

definition hex_int :: "int \<Rightarrow> string" where
  "hex_int n = (if n < 0 then ''-'' @ digits 16 (nat (- n)) else digits 16 (nat n))"

definition startswith :: "string \<Rightarrow> string \<Rightarrow> bool" where
  "startswith s p = (take (length p) s = p)"

fun join :: "string \<Rightarrow> string list \<Rightarrow> string" where
  "join sep [] = []"
| "join sep [x] = x"
| "join sep (x # y # ys) = x @ sep @ join sep (y # ys)"

text \<open>\<^verbatim>\<open>range(n)\<close>: the integers from 0 below \<open>n\<close>, none when \<open>n \<le> 0\<close>.\<close>

definition py_range :: "int \<Rightarrow> int list" where
  "py_range n = map int [0..<nat n]"

section \<open>The vector provider\<close>

subsection \<open>Unwrapping the capacity boundary\<close>

definition wrapper_names :: "string list" where
  "wrapper_names = [''__value_'', ''__first_'', ''first'', ''__value'', ''__first'']"

text \<open>
  The first loop of \<^verbatim>\<open>_extract_vector_end_cap_pointer\<close>, over the names still to try;
  \<open>None\<close> is a loop that ends without returning.
\<close>

fun probe_wrapper_names :: "sbvalue \<Rightarrow> string list \<Rightarrow> sbvalue option" where
  "probe_wrapper_names v [] = None"
| "probe_wrapper_names v (name # names) =
     (let child = GetChildMemberWithName v name
      in if IsValid child then
           if IsPointerType (GetType child) then Some child
           else (case get_child_member_by_names child wrapper_names of
                   None \<Rightarrow> probe_wrapper_names v names
                 | Some nested \<Rightarrow>
                     if IsValid nested \<and> IsPointerType (GetType nested) then Some nested
                     else probe_wrapper_names v names)
         else probe_wrapper_names v names)"

text \<open>The second loop, over the child indices still to visit.\<close>

fun scan_children :: "sbvalue \<Rightarrow> nat list \<Rightarrow> sbvalue option" where
  "scan_children v [] = None"
| "scan_children v (i # is) =
     (let child = GetChildAtIndex v i
      in if IsValid child \<and> IsPointerType (GetType child) then Some child
         else scan_children v is)"

definition extract_vector_end_cap_pointer :: "sbvalue option \<Rightarrow> sbvalue option" where
  "extract_vector_end_cap_pointer end_cap_value =
     (case end_cap_value of
        None \<Rightarrow> None
      | Some v \<Rightarrow>
          if \<not> IsValid v then None
          else if IsPointerType (GetType v) then Some v
          else (case probe_wrapper_names v wrapper_names of
                  Some p \<Rightarrow> Some p
                | None \<Rightarrow> scan_children v [0..<GetNumChildren v]))"

subsection \<open>Boundaries, length and capacity\<close>

text \<open>The candidate names of the three boundary fields, in the order they are tried.\<close>

definition begin_names :: "string list" where
  "begin_names = [''__begin_'', ''__begin'']"

definition end_names :: "string list" where
  "end_names = [''__end_'', ''__end'']"

definition end_cap_names :: "string list" where
  "end_cap_names = [''__end_cap_'', ''__end_cap'']"

text \<open>The local variables of \<^verbatim>\<open>vector_summary_provider\<close> when it reaches its formatting part.\<close>

record vector_locals =
  begin_addr :: int
  end_addr :: int
  elem_type :: "sbtype option"
  element_size :: int
  size_v :: int
  capacity :: "int option"
  values_v :: "string list"
  truncated :: bool

definition elem_type_of :: "sbvalue \<Rightarrow> sbtype option" where
  "elem_type_of begin_ptr =
     (if IsPointerType (GetType begin_ptr) then GetPointeeType (GetType begin_ptr) else None)"

definition element_size_of :: "sbvalue \<Rightarrow> int" where
  "element_size_of begin_ptr =
     (case elem_type_of begin_ptr of None \<Rightarrow> 0 | Some t \<Rightarrow> int (GetByteSize t))"

definition compute_size :: "int \<Rightarrow> int \<Rightarrow> int \<Rightarrow> py_exception + int" where
  "compute_size b e es =
     (if b \<noteq> 0 \<and> e \<noteq> 0 \<and> es > 0 \<and> e \<ge> b then py_floordiv (e - b) es else Inr 0)"

definition compute_capacity :: "sbvalue option \<Rightarrow> int \<Rightarrow> int \<Rightarrow> py_exception + int option" where
  "compute_capacity end_cap_ptr b es =
     (case end_cap_ptr of
        None \<Rightarrow> Inr None
      | Some p \<Rightarrow>
          if \<not> truthy end_cap_ptr then Inr None
          else (let end_cap_addr = get_raw_pointer p
                in if end_cap_addr \<noteq> 0 \<and> es > 0 \<and> end_cap_addr \<ge> b
                   then (case py_floordiv (end_cap_addr - b) es of
                           Inl ex \<Rightarrow> Inl ex
                         | Inr c \<Rightarrow> Inr (Some c))
                   else Inr None))"

subsection \<open>Materializing the elements\<close>

text \<open>
  The loop over \<^verbatim>\<open>range(show_count)\<close>: an exception of the debugger is caught and leaves
  no value, and every index appends one rendering.
\<close>

definition create_element :: "memory \<Rightarrow> int \<Rightarrow> int \<Rightarrow> sbtype \<Rightarrow> sbvalue option" where
  "create_element mem i element_addr t =
     (case mem (''['' @ str_int i @ '']'') element_addr t of Inl ex \<Rightarrow> None | Inr v \<Rightarrow> Some v)"

fun materialize :: "memory \<Rightarrow> int \<Rightarrow> int \<Rightarrow> sbtype \<Rightarrow> int list \<Rightarrow> string list \<Rightarrow> string list" where
  "materialize mem b es t [] vals = vals"
| "materialize mem b es t (i # is) vals =
     (let element_addr = b + i * es;
          element_val = create_element mem i element_addr t
      in materialize mem b es t is (vals @ [get_value_summary element_val]))"

definition vector_locals_of ::
  "config \<Rightarrow> memory \<Rightarrow> sbvalue \<Rightarrow> py_exception + vector_locals option" where
  "vector_locals_of cfg mem valobj =
     (let begin_ptr = get_child_member_by_names valobj begin_names;
          end_ptr = get_child_member_by_names valobj end_names;
          end_cap_raw = get_child_member_by_names valobj end_cap_names;
          end_cap_ptr = extract_vector_end_cap_pointer end_cap_raw
      in if \<not> truthy begin_ptr \<or> \<not> truthy end_ptr then Inr None
         else case (begin_ptr, end_ptr) of
           (Some bp, Some ep) \<Rightarrow>
               (let b = get_raw_pointer bp;
                    e = get_raw_pointer ep;
                    et = elem_type_of bp;
                    es = element_size_of bp
                in case compute_size b e es of
                     Inl ex \<Rightarrow> Inl ex
                   | Inr sz \<Rightarrow>
                       (case compute_capacity end_cap_ptr b es of
                          Inl ex \<Rightarrow> Inl ex
                        | Inr cap \<Rightarrow>
                            (let (vals, trunc) =
                                   (case et of
                                      Some t \<Rightarrow>
                                        if sz > 0 \<and> es > 0 then
                                          (let max_items = summary_max_items cfg;
                                               show_count = min sz max_items
                                           in (materialize mem b es t (py_range show_count) [],
                                               sz > max_items))
                                        else ([], False)
                                    | None \<Rightarrow> ([], False))
                             in Inr (Some \<lparr>begin_addr = b, end_addr = e, elem_type = et,
                                   element_size = es, size_v = sz, capacity = cap,
                                   values_v = vals, truncated = trunc\<rparr>))))
         | _ \<Rightarrow> Inr None)"

subsection \<open>Formatting\<close>

definition color :: "config \<Rightarrow> (config \<Rightarrow> string) \<Rightarrow> string" where
  "color cfg c = (if use_colors cfg then c cfg else [])"

definition colored_value :: "config \<Rightarrow> string \<Rightarrow> string" where
  "colored_value cfg v =
     (if v \<noteq> [] \<and> startswith v ''[''
      then color cfg RED @ v @ color cfg RESET
      else color cfg YELLOW @ v @ color cfg RESET)"

definition vector_format :: "config \<Rightarrow> vector_locals \<Rightarrow> string" where
  "vector_format cfg l =
     (let colored_values = map (colored_value cfg) (values_v l);
          elements_str =
            (if size_v l = 0 then []
             else if values_v l \<noteq> [] then join '', '' colored_values
             else color cfg RED @ ''[unavailable]'' @ color cfg RESET);
          elements_str =
            (if truncated l
             then (if elements_str \<noteq> [] then elements_str @ '', ...'' else ''...'')
             else elements_str);
          size_str = ''size = '' @ str_int (size_v l);
          capacity_str =
            (case capacity l of
               Some c \<Rightarrow> ''capacity = '' @ str_int c
             | None \<Rightarrow> ''capacity = ?'');
          data_str =
            (if begin_addr l \<noteq> 0 then ''data = 0x'' @ hex_int (begin_addr l)
             else ''data = null'')
      in color cfg GREEN @ size_str @ color cfg RESET @ '', '' @
         color cfg GREEN @ capacity_str @ color cfg RESET @ '', '' @
         color cfg GREEN @ data_str @ color cfg RESET @ '', ['' @ elements_str @ '']'')"

definition vector_summary_provider :: "config \<Rightarrow> memory \<Rightarrow> sbvalue \<Rightarrow> py_exception + string" where
  "vector_summary_provider cfg mem valobj =
     (case vector_locals_of cfg mem valobj of
        Inl ex \<Rightarrow> Inl ex
      | Inr None \<Rightarrow> Inr ''Error: Could not locate vector storage pointers.''
      | Inr (Some l) \<Rightarrow> Inr (vector_format cfg l))"

section \<open>The provider for linked containers\<close>

text \<open>
  \<^verbatim>\<open>LinearTraversalStrategy.traverse\<close> of \<^verbatim>\<open>strategies.py\<close> is not part of the sources at
  hand; the provider takes it as a parameter that maps the head pointer and the item cap to
  the rendered values and the metadata dictionary.
\<close>

text \<open>The candidate names of the head pointer and of the size member.\<close>

definition head_names :: "string list" where
  "head_names = [''head'', ''m_head'', ''_head'', ''top'']"

definition size_names :: "string list" where
  "size_names = [''count'', ''size'', ''m_size'', ''_size'']"

type_synonym traversal = "sbvalue \<Rightarrow> int \<Rightarrow> string list \<times> (string \<rightharpoonup> bool)"

text \<open>\<^verbatim>\<open>metadata.get(key, False)\<close>.\<close>

definition get_flag :: "(string \<rightharpoonup> bool) \<Rightarrow> string \<Rightarrow> bool" where
  "get_flag metadata key = (case metadata key of None \<Rightarrow> False | Some b \<Rightarrow> b)"

text \<open>
  \<^verbatim>\<open>str.strip()\<close> removes the white space at both ends; of the characters below 256 Python
  counts these as white space.
\<close>

definition is_space :: "char \<Rightarrow> bool" where
  "is_space c = ((of_char c :: nat) \<in> {9, 10, 11, 12, 13, 28, 29, 30, 31, 32, 133, 160})"

definition strip :: "string \<Rightarrow> string" where
  "strip s = rev (dropWhile is_space (rev (dropWhile is_space s)))"

definition linked_colored_value :: "config \<Rightarrow> string \<Rightarrow> string" where
  "linked_colored_value cfg v =
     (if startswith v ''[''
      then color cfg RED @ v @ color cfg RESET
      else color cfg YELLOW @ v @ color cfg RESET)"

text \<open>The formatting part of the provider, from the traversal's result on.\<close>

definition linear_format ::
  "config \<Rightarrow> sbvalue \<Rightarrow> string list \<Rightarrow> (string \<rightharpoonup> bool) \<Rightarrow> string" where
  "linear_format cfg valobj vals metadata =
     (let size_member = get_child_member_by_names valobj size_names;
          size_str =
            (case size_member of
               None \<Rightarrow> []
             | Some m \<Rightarrow>
                 if truthy size_member
                 then ''size = '' @ str_int (int (GetValueAsUnsigned m))
                 else []);
          colored_values = map (linked_colored_value cfg) vals;
          separator =
            (if get_flag metadata ''doubly_linked''
             then '' '' @ color cfg BOLD_CYAN @ ''<->'' @ color cfg RESET @ '' ''
             else '' '' @ color cfg BOLD_CYAN @ ''->'' @ color cfg RESET @ '' '');
          summary_str = join separator colored_values;
          summary_str =
            (if get_flag metadata ''truncated''
             then summary_str @ '' '' @ strip separator @ '' ...''
             else summary_str)
      in color cfg GREEN @ size_str @ color cfg RESET @ '', ['' @ summary_str @ '']'')"

definition linear_container_summary_provider :: "config \<Rightarrow> traversal \<Rightarrow> sbvalue \<Rightarrow> string" where
  "linear_container_summary_provider cfg traverse valobj =
     (let head_ptr = get_child_member_by_names valobj head_names
      in if \<not> truthy head_ptr then ''Error: Could not find head pointer member.''
         else case head_ptr of
           None \<Rightarrow> ''Error: Could not find head pointer member.''
         | Some hp \<Rightarrow>
             if get_raw_pointer hp = 0 then ''size = 0, []''
             else
               (let (vals, metadata) = traverse hp (summary_max_items cfg)
                in linear_format cfg valobj vals metadata))"

section \<open>The layered unwrap, stage by stage\<close>

text \<open>The first success of a list of attempts.\<close>

fun first_some :: "'a option list \<Rightarrow> 'a option" where
  "first_some [] = None"
| "first_some (None # xs) = first_some xs"
| "first_some (Some x # xs) = Some x"

definition is_pointer_value :: "sbvalue \<Rightarrow> bool" where
  "is_pointer_value c = (IsValid c \<and> IsPointerType (GetType c))"

text \<open>Stage 1: the candidate itself, when it is pointer-typed.\<close>

definition direct_pointer :: "sbvalue \<Rightarrow> sbvalue option" where
  "direct_pointer v = (if IsPointerType (GetType v) then Some v else None)"

text \<open>
  What one wrapper name yields: the child of that name when it is a pointer, else the field
  that the wrapper names resolve inside that child, when that field is a pointer.
\<close>

definition probe_name :: "sbvalue \<Rightarrow> string \<Rightarrow> sbvalue option" where
  "probe_name v name =
     (let child = GetChildMemberWithName v name
      in if \<not> IsValid child then None
         else if IsPointerType (GetType child) then Some child
         else (case get_child_member_by_names child wrapper_names of
                 None \<Rightarrow> None
               | Some nested \<Rightarrow> if is_pointer_value nested then Some nested else None))"

text \<open>Stage 2 as the code runs it: name by name, each one level deep and then two.\<close>

definition named_wrappers :: "sbvalue \<Rightarrow> sbvalue option" where
  "named_wrappers v = first_some (map (probe_name v) wrapper_names)"

text \<open>Stage 3: the first pointer-typed child in declaration order.\<close>

definition first_pointer_child :: "sbvalue \<Rightarrow> sbvalue option" where
  "first_pointer_child v = find is_pointer_value (map snd (children v))"

text \<open>
  The stages as the specification words them: every wrapper name one level deep, and only
  then every wrapper name two levels deep.
\<close>

definition spec_one_level :: "sbvalue \<Rightarrow> sbvalue option" where
  "spec_one_level v =
     find is_pointer_value (map (GetChildMemberWithName v) wrapper_names)"

definition spec_nested :: "sbvalue \<Rightarrow> string \<Rightarrow> sbvalue option" where
  "spec_nested v name =
     (let child = GetChildMemberWithName v name
      in if \<not> IsValid child then None
         else (case get_child_member_by_names child wrapper_names of
                 None \<Rightarrow> None
               | Some nested \<Rightarrow> if is_pointer_value nested then Some nested else None))"

definition spec_two_levels :: "sbvalue \<Rightarrow> sbvalue option" where
  "spec_two_levels v = first_some (map (spec_nested v) wrapper_names)"

definition spec_layered_unwrap :: "sbvalue option \<Rightarrow> sbvalue option" where
  "spec_layered_unwrap x =
     (case x of
        None \<Rightarrow> None
      | Some v \<Rightarrow>
          if \<not> IsValid v then None
          else first_some [direct_pointer v, spec_one_level v, spec_two_levels v,
                 first_pointer_child v])"

section \<open>Sample inputs\<close>

definition example_int_type :: sbtype where
  "example_int_type = SBType False 4 None"

definition example_pointer_type :: sbtype where
  "example_pointer_type = SBType True 8 (Some example_int_type)"

definition example_pointer :: "nat \<Rightarrow> sbvalue" where
  "example_pointer a = SBValue True example_pointer_type a [] None"

definition example_struct :: "(string \<times> sbvalue) list \<Rightarrow> sbvalue" where
  "example_struct cs = SBValue True (SBType False 24 None) 0 cs None"

text \<open>A vector of 4-byte elements whose capacity boundary sits in a one-field wrapper.\<close>

definition example_vector :: "nat \<Rightarrow> nat \<Rightarrow> nat \<Rightarrow> sbvalue" where
  "example_vector b e c =
     example_struct [(''__begin_'', example_pointer b), (''__end_'', example_pointer e),
       (''__end_cap_'', example_struct [(''__value_'', example_pointer c)])]"

text \<open>A capacity wrapper with a pointer two levels deep under its first name and another
  pointer one level deep under its second name.\<close>

definition example_wrapper :: sbvalue where
  "example_wrapper =
     example_struct [(''__value_'', example_struct [(''__value_'', example_pointer 48)]),
       (''__first_'', example_pointer 64)]"

definition example_list :: "nat \<Rightarrow> sbvalue" where
  "example_list h = example_struct [(''head'', example_pointer h)]"

definition example_config :: config where
  "example_config = \<lparr>use_colors = False, GREEN = ''<g>'', RESET = ''<0>'', YELLOW = ''<y>'',
     RED = ''<r>'', BOLD_CYAN = ''<c>'', summary_max_items = 3\<rparr>"

text \<open>
  A memory where the word at address 4100 cannot be read; every other value renders as the
  address it was synthesized at.
\<close>

definition example_memory :: memory where
  "example_memory name a t =
     (if a = 4100 then Inl (Exception ''unreadable'')
      else Inr (SBValue True t 0 [] (Some (str_int a))))"

definition example_color_config :: config where
  "example_color_config = example_config\<lparr>use_colors := True\<rparr>"

definition example_negative_config :: config where
  "example_negative_config = example_config\<lparr>summary_max_items := - 1\<rparr>"

definition example_traverse :: traversal where
  "example_traverse hp n = ([''1'', ''2''], Map.empty)"

definition example_untyped_vector :: sbvalue where
  "example_untyped_vector =
     example_struct [(''__begin_'', example_struct []), (''__end_'', example_pointer 40),
       (''__end_cap_'', example_pointer 80)]"

text \<open>A vector whose begin field is not a pointer and that has no end field.\<close>

definition example_untyped_no_end :: sbvalue where
  "example_untyped_no_end = example_struct [(''__begin_'', example_struct [])]"

definition example_no_end :: sbvalue where
  "example_no_end = example_struct [(''__begin_'', example_pointer 4096)]"

section \<open>Auxiliary facts\<close>

lemma get_child_member_by_names_valid:
  "get_child_member_by_names v names = Some c \<Longrightarrow> IsValid c"
  by (induction names) (auto simp: Let_def split: if_splits)

lemma probe_wrapper_names_valid:
  "probe_wrapper_names v names = Some p \<Longrightarrow> IsValid p \<and> IsPointerType (GetType p)"
  by (induction names) (auto simp: Let_def split: if_splits option.splits)

lemma scan_children_valid:
  "scan_children v is = Some p \<Longrightarrow> IsValid p \<and> IsPointerType (GetType p)"
  by (induction "is") (auto simp: Let_def split: if_splits)

lemma extract_vector_end_cap_pointer_valid:
  "extract_vector_end_cap_pointer x = Some p \<Longrightarrow> IsValid p \<and> IsPointerType (GetType p)"
  by (auto simp: extract_vector_end_cap_pointer_def split: option.splits if_splits
      dest: probe_wrapper_names_valid scan_children_valid)

lemma compute_size_Inr:
  "compute_size b e es =
     Inr (if b \<noteq> 0 \<and> e \<noteq> 0 \<and> es > 0 \<and> e \<ge> b then (e - b) div es else 0)"
  by (simp add: compute_size_def py_floordiv_def)

lemma compute_capacity_Inr:
  "compute_capacity x b es =
     Inr (case x of
            None \<Rightarrow> None
          | Some p \<Rightarrow>
              if IsValid p \<and> get_raw_pointer p \<noteq> 0 \<and> es > 0 \<and> get_raw_pointer p \<ge> b
              then Some ((get_raw_pointer p - b) div es) else None)"
  by (simp add: compute_capacity_def py_floordiv_def truthy_def Let_def split: option.splits)

lemma materialize_append:
  "materialize mem b es t is vals =
     vals @ map (\<lambda>i. get_value_summary (create_element mem i (b + i * es) t)) is"
  by (induction "is" arbitrary: vals) (simp_all add: Let_def)

text \<open>
  When both boundary fields resolve, the provider reaches its formatting part with these
  local variables.
\<close>

lemma vector_locals_of_resolved:
  fixes cfg mem valobj bp ep
  assumes b_def: "b = get_raw_pointer bp" and e_def: "e = get_raw_pointer ep"
    and es_def: "es = element_size_of bp" and et_def: "et = elem_type_of bp"
    and cp_def: "cp = extract_vector_end_cap_pointer
                 (get_child_member_by_names valobj end_cap_names)"
    and sz_def: "sz = (if b \<noteq> 0 \<and> e \<noteq> 0 \<and> es > 0 \<and> e \<ge> b then (e - b) div es else 0)"
    and bp: "get_child_member_by_names valobj begin_names = Some bp"
    and ep: "get_child_member_by_names valobj end_names = Some ep"
  shows "\<exists>l. vector_locals_of cfg mem valobj = Inr (Some l)
     \<and> begin_addr l = b \<and> end_addr l = e \<and> elem_type l = et \<and> element_size l = es
     \<and> size_v l = sz
     \<and> capacity l =
         (case cp of
            None \<Rightarrow> None
          | Some p \<Rightarrow>
              if get_raw_pointer p \<noteq> 0 \<and> es > 0 \<and> get_raw_pointer p \<ge> b
              then Some ((get_raw_pointer p - b) div es) else None)
     \<and> values_v l =
         (case et of
            None \<Rightarrow> []
          | Some t \<Rightarrow>
              if sz > 0 \<and> es > 0
              then map (\<lambda>i. get_value_summary (create_element mem i (b + i * es) t))
                     (py_range (min sz (summary_max_items cfg)))
              else [])
     \<and> truncated l = (et \<noteq> None \<and> sz > 0 \<and> es > 0 \<and> sz > summary_max_items cfg)"
proof -
  have vb: "IsValid bp" and ve: "IsValid ep"
    using bp ep get_child_member_by_names_valid by blast+
  have vc: "\<And>p. cp = Some p \<Longrightarrow> IsValid p"
    unfolding cp_def using extract_vector_end_cap_pointer_valid by blast
  have cap: "compute_capacity cp b es =
      Inr (case cp of None \<Rightarrow> None
           | Some p \<Rightarrow>
              if get_raw_pointer p \<noteq> 0 \<and> es > 0 \<and> get_raw_pointer p \<ge> b
              then Some ((get_raw_pointer p - b) div es) else None)"
    using vc by (cases cp) (simp_all add: compute_capacity_Inr)
  have sz: "compute_size b e es = Inr sz"
    by (simp add: compute_size_Inr sz_def)
  have "vector_locals_of cfg mem valobj =
     Inr (Some \<lparr>begin_addr = b, end_addr = e, elem_type = et, element_size = es, size_v = sz,
       capacity = (case cp of None \<Rightarrow> None
           | Some p \<Rightarrow>
              if get_raw_pointer p \<noteq> 0 \<and> es > 0 \<and> get_raw_pointer p \<ge> b
              then Some ((get_raw_pointer p - b) div es) else None),
       values_v = (case et of
            None \<Rightarrow> []
          | Some t \<Rightarrow>
              if sz > 0 \<and> es > 0
              then map (\<lambda>i. get_value_summary (create_element mem i (b + i * es) t))
                     (py_range (min sz (summary_max_items cfg)))
              else []),
       truncated = (et \<noteq> None \<and> sz > 0 \<and> es > 0 \<and> sz > summary_max_items cfg)\<rparr>)"
    using sz cap unfolding vector_locals_of_def Let_def bp ep b_def e_def es_def et_def
    by (cases "elem_type_of bp")
      (auto simp: truthy_def vb ve materialize_append cp_def [symmetric])
  then show ?thesis by simp
qed

lemma vector_locals_of_unresolved:
  assumes "get_child_member_by_names valobj begin_names = None
     \<or> get_child_member_by_names valobj end_names = None"
  shows "vector_locals_of cfg mem valobj = Inr None"
  using assms unfolding vector_locals_of_def Let_def
  by (auto simp: truthy_def)

lemma get_raw_pointer_nonneg: "0 \<le> get_raw_pointer v"
  by (simp add: get_raw_pointer_def)

lemma vector_format_shape:
  "\<exists>elements. vector_format cfg l =
     color cfg GREEN @ ''size = '' @ str_int (size_v l) @ color cfg RESET @ '', '' @
     color cfg GREEN @
       (case capacity l of Some c \<Rightarrow> ''capacity = '' @ str_int c | None \<Rightarrow> ''capacity = ?'') @
     color cfg RESET @ '', '' @
     color cfg GREEN @
       (if begin_addr l \<noteq> 0 then ''data = 0x'' @ hex_int (begin_addr l) else ''data = null'') @
     color cfg RESET @ '', ['' @ elements @ '']''"
  by (simp add: vector_format_def Let_def)

lemma vector_summary_provider_resolved:
  "vector_locals_of cfg mem valobj = Inr (Some l) \<Longrightarrow>
   vector_summary_provider cfg mem valobj = Inr (vector_format cfg l)"
  by (simp add: vector_summary_provider_def)

lemma example_pointer_simps [simp]:
  "get_raw_pointer (example_pointer a) = int a"
  "elem_type_of (example_pointer a) = Some example_int_type"
  "element_size_of (example_pointer a) = 4"
  "IsValid (example_pointer a)"
  "IsPointerType (GetType (example_pointer a))"
  by (simp_all add: get_raw_pointer_def example_pointer_def example_pointer_type_def
      elem_type_of_def element_size_of_def example_int_type_def)

lemma example_vector_fields [simp]:
  "get_child_member_by_names (example_vector b e c) begin_names = Some (example_pointer b)"
  "get_child_member_by_names (example_vector b e c) end_names = Some (example_pointer e)"
  "get_child_member_by_names (example_vector b e c) end_cap_names
     = Some (example_struct [(''__value_'', example_pointer c)])"
  by (simp_all add: example_vector_def example_struct_def begin_names_def end_names_def
      end_cap_names_def GetChildMemberWithName_def)

lemma example_vector_end_cap [simp]:
  "extract_vector_end_cap_pointer (Some (example_struct [(''__value_'', example_pointer c)]))
     = Some (example_pointer c)"
  by (simp add: extract_vector_end_cap_pointer_def example_struct_def wrapper_names_def
      GetChildMemberWithName_def)

lemma str_int_small [simp]: "str_int 0 = ''0''" "str_int 10 = ''10''" "str_int 3 = ''3''"
  by (simp_all add: str_int_def digits.simps digit_char_def)

lemma vector_locals_of_no_exception: "\<exists>r. vector_locals_of cfg mem valobj = Inr r"
proof (cases "get_child_member_by_names valobj begin_names = None
     \<or> get_child_member_by_names valobj end_names = None")
  case True
  then show ?thesis using vector_locals_of_unresolved by blast
next
  case False
  then obtain bp ep where "get_child_member_by_names valobj begin_names = Some bp"
    "get_child_member_by_names valobj end_names = Some ep" by auto
  from vector_locals_of_resolved [OF refl refl refl refl refl refl this, of cfg mem]
  show ?thesis by blast
qed

lemma str_int_more [simp]: "str_int 2 = ''2''" "str_int 16 = ''16''" "str_int 20 = ''20''"
  by (simp_all add: str_int_def digits.simps digit_char_def)

lemma example_untyped_vector_fields [simp]:
  "get_child_member_by_names example_untyped_vector begin_names = Some (example_struct [])"
  "get_child_member_by_names example_untyped_vector end_names = Some (example_pointer 40)"
  by (simp_all add: example_untyped_vector_def example_struct_def begin_names_def
      end_names_def GetChildMemberWithName_def)

lemma example_no_end_fields [simp]:
  "get_child_member_by_names example_no_end begin_names = Some (example_pointer 4096)"
  "get_child_member_by_names example_no_end end_names = None"
  by (simp_all add: example_no_end_def example_struct_def begin_names_def
      end_names_def GetChildMemberWithName_def invalid_value_def)

lemma color_example_config [simp]: "color example_config c = []"
  by (simp add: color_def example_config_def)

lemma element_size_of_not_pointer:
  "\<not> IsPointerType (GetType bp) \<Longrightarrow> element_size_of bp = 0"
  by (simp add: element_size_of_def elem_type_of_def)

lemma vector_summary_provider_no_exception:
  "\<exists>s. vector_summary_provider cfg mem valobj = Inr s"
proof -
  obtain r where "vector_locals_of cfg mem valobj = Inr r"
    using vector_locals_of_no_exception by blast
  then show ?thesis
    by (cases r) (simp_all add: vector_summary_provider_def)
qed

lemma last_vector_format: "last (vector_format cfg l) = CHR '']''"
  using vector_format_shape [of cfg l] by auto

lemma linear_format_shape:
  "\<exists>size_str summary_str. linear_format cfg valobj vals metadata =
     color cfg GREEN @ size_str @ color cfg RESET @ '', ['' @ summary_str @ '']''"
  unfolding linear_format_def Let_def by (intro exI) (rule refl)

lemma linear_summary_shape:
  assumes "get_child_member_by_names valobj head_names = Some hp"
  shows "linear_container_summary_provider cfg traverse valobj = ''size = 0, []''
     \<or> (\<exists>size_str summary_str. linear_container_summary_provider cfg traverse valobj =
           color cfg GREEN @ size_str @ color cfg RESET @ '', ['' @ summary_str @ '']'')"
proof (cases "get_raw_pointer hp = 0")
  case True
  then show ?thesis
    using get_child_member_by_names_valid [OF assms]
    unfolding linear_container_summary_provider_def assms Let_def
    by (simp add: truthy_def)
next
  case False
  obtain vals metadata where t: "traverse hp (summary_max_items cfg) = (vals, metadata)"
    by (cases "traverse hp (summary_max_items cfg)")
  have "linear_container_summary_provider cfg traverse valobj
      = linear_format cfg valobj vals metadata"
    using get_child_member_by_names_valid [OF assms] False
    unfolding linear_container_summary_provider_def assms Let_def
    by (simp add: truthy_def t)
  then show ?thesis using linear_format_shape [of cfg valobj vals metadata] by simp
qed

lemma linear_summary_last:
  assumes "get_child_member_by_names valobj head_names = Some hp"
  shows "last (linear_container_summary_provider cfg traverse valobj) = CHR '']''"
  using linear_summary_shape [OF assms, of cfg traverse] by auto

lemma linear_unresolved:
  assumes "get_child_member_by_names valobj head_names = None"
  shows "linear_container_summary_provider cfg traverse valobj
     = ''Error: Could not find head pointer member.''"
  unfolding linear_container_summary_provider_def assms Let_def
  by (simp add: truthy_def)

lemma vector_locals_of_Some_resolved:
  assumes "vector_locals_of cfg mem valobj = Inr (Some l)"
  shows "\<exists>bp ep. get_child_member_by_names valobj begin_names = Some bp
     \<and> get_child_member_by_names valobj end_names = Some ep"
proof (rule ccontr)
  assume "\<not> ?thesis"
  then have "get_child_member_by_names valobj begin_names = None
     \<or> get_child_member_by_names valobj end_names = None" by auto
  from vector_locals_of_unresolved [OF this, of cfg mem] assms show False by simp
qed

lemma element_size_pos_elem_type:
  "element_size_of bp > 0 \<Longrightarrow> elem_type_of bp \<noteq> None"
  by (auto simp: element_size_of_def split: option.splits)

lemma length_py_range [simp]: "length (py_range n) = nat n"
  by (simp add: py_range_def)

lemma nth_py_range [simp]: "i < nat n \<Longrightarrow> py_range n ! i = int i"
  by (simp add: py_range_def)

text \<open>The materialized window of a provider run that reached its formatting part.\<close>

lemma vector_window:
  assumes "vector_locals_of cfg mem valobj = Inr (Some l)"
  shows "length (values_v l) = nat (min (size_v l) (summary_max_items cfg))"
    and "0 \<le> size_v l"
    and "truncated l = (0 < size_v l \<and> summary_max_items cfg < size_v l)"
    and "i < length (values_v l) \<Longrightarrow>
         \<exists>t. elem_type l = Some t \<and> values_v l ! i =
           get_value_summary (create_element mem (int i) (begin_addr l + int i * element_size l) t)"
proof -
  obtain bp ep where bp: "get_child_member_by_names valobj begin_names = Some bp"
    and ep: "get_child_member_by_names valobj end_names = Some ep"
    using vector_locals_of_Some_resolved [OF assms] by blast
  define sz where "sz = (if get_raw_pointer bp \<noteq> 0 \<and> get_raw_pointer ep \<noteq> 0
        \<and> element_size_of bp > 0 \<and> get_raw_pointer ep \<ge> get_raw_pointer bp
      then (get_raw_pointer ep - get_raw_pointer bp) div element_size_of bp else 0)"
  from vector_locals_of_resolved [OF refl refl refl refl refl sz_def bp ep, of cfg mem] assms
  have b: "begin_addr l = get_raw_pointer bp" and es: "element_size l = element_size_of bp"
    and et: "elem_type l = elem_type_of bp" and s: "size_v l = sz"
    and v: "values_v l =
         (case elem_type_of bp of
            None \<Rightarrow> []
          | Some t \<Rightarrow>
              if sz > 0 \<and> element_size_of bp > 0
              then map (\<lambda>i. get_value_summary
                         (create_element mem i (get_raw_pointer bp + i * element_size_of bp) t))
                     (py_range (min sz (summary_max_items cfg)))
              else [])"
    and t: "truncated l = (elem_type_of bp \<noteq> None \<and> sz > 0 \<and> element_size_of bp > 0
          \<and> sz > summary_max_items cfg)"
    by auto
  have nn: "0 \<le> sz"
    by (simp add: sz_def pos_imp_zdiv_nonneg_iff)
  have pos: "sz > 0 \<Longrightarrow> element_size_of bp > 0 \<and> elem_type_of bp \<noteq> None"
    using element_size_pos_elem_type [of bp] by (auto simp: sz_def split: if_splits)
  show "0 \<le> size_v l" using nn s by simp
  show "truncated l = (0 < size_v l \<and> summary_max_items cfg < size_v l)"
    using t s pos by auto
  show "length (values_v l) = nat (min (size_v l) (summary_max_items cfg))"
  proof (cases "sz > 0")
    case True
    then show ?thesis using pos v s by auto
  next
    case False
    then have "sz = 0" using nn by simp
    then show ?thesis using v s by (auto split: option.splits)
  qed
  show "\<exists>t. elem_type l = Some t \<and> values_v l ! i =
           get_value_summary (create_element mem (int i) (begin_addr l + int i * element_size l) t)"
    if "i < length (values_v l)"
  proof -
    from that v obtain t where tt: "elem_type_of bp = Some t"
      and c: "sz > 0 \<and> element_size_of bp > 0"
      by (cases "elem_type_of bp") (auto split: if_splits)
    have "i < nat (min sz (summary_max_items cfg))"
      using that v tt c by simp
    then show ?thesis
      using v tt c b es et by simp
  qed
qed

lemma example_list_head [simp]:
  "get_child_member_by_names (example_list h) head_names = Some (example_pointer h)"
  by (simp add: example_list_def example_struct_def head_names_def GetChildMemberWithName_def)

lemma summary_max_items_example_config [simp]: "summary_max_items example_config = 3"
  by (simp add: example_config_def)

lemma probe_wrapper_names_first_some:
  "probe_wrapper_names v names = first_some (map (probe_name v) names)"
  by (induction names)
    (simp_all add: probe_name_def Let_def is_pointer_value_def split: option.splits)

lemma first_some_single [simp]: "first_some [x] = x"
  by (cases x) simp_all

lemma scan_children_find_indices:
  "set is \<subseteq> {..<length (children v)} \<Longrightarrow>
   scan_children v is = find is_pointer_value (map (\<lambda>i. snd (children v ! i)) is)"
proof (induction "is")
  case Nil
  show ?case by simp
next
  case (Cons i "is")
  then have i: "GetChildAtIndex v i = snd (children v ! i)"
    and rest: "scan_children v is = find is_pointer_value (map (\<lambda>i. snd (children v ! i)) is)"
    by (simp_all add: GetChildAtIndex_def)
  have p: "(IsValid c \<and> IsPointerType (GetType c)) = is_pointer_value c" for c
    by (simp add: is_pointer_value_def)
  show ?case
    by (simp add: Let_def i rest p)
qed

lemma scan_children_find:
  "scan_children v [0..<GetNumChildren v] = first_pointer_child v"
proof -
  have "map (\<lambda>i. snd (children v ! i)) [0..<length (children v)] = map snd (children v)"
    by (rule nth_equalityI) simp_all
  moreover have "set [0..<length (children v)] \<subseteq> {..<length (children v)}"
    by auto
  ultimately show ?thesis
    using scan_children_find_indices [of "[0..<length (children v)]" v]
    by (simp add: GetNumChildren_def first_pointer_child_def)
qed

lemma example_wrapper_extract:
  "extract_vector_end_cap_pointer (Some example_wrapper) = Some (example_pointer 48)"
  by (simp add: extract_vector_end_cap_pointer_def example_wrapper_def example_struct_def
      wrapper_names_def GetChildMemberWithName_def example_pointer_def
      example_pointer_type_def)

lemma py_range_3 [simp]: "py_range 3 = [0, 1, 2]"
  by (simp add: py_range_def upt_rec)

lemma str_int_addresses [simp]:
  "str_int 4096 = ''4096''" "str_int 4104 = ''4104''" "hex_int 4096 = ''1000''"
  by (simp_all add: str_int_def hex_int_def digits.simps digit_char_def)

lemma example_memory_elements [simp]:
  "get_value_summary (create_element example_memory 0 4096 example_int_type) = ''4096''"
  "get_value_summary (create_element example_memory 1 4100 example_int_type) = ''[unavailable]''"
  "get_value_summary (create_element example_memory 2 4104 example_int_type) = ''4104''"
  by (simp_all add: create_element_def example_memory_def get_value_summary_def)

lemma example_other_configs [simp]:
  "summary_max_items example_color_config = 3"
  "summary_max_items example_negative_config = - 1"
  "color example_negative_config c = []"
  "color example_color_config c = c example_color_config"
  "GREEN example_color_config = ''<g>''" "RESET example_color_config = ''<0>''"
  "YELLOW example_color_config = ''<y>''" "RED example_color_config = ''<r>''"
  by (simp_all add: example_color_config_def example_negative_config_def example_config_def
      color_def)

text \<open>The sample vector of ten elements under a cap of three.\<close>

lemma example_vector_window:
  assumes "summary_max_items cfg = 3"
  shows "\<exists>l. vector_locals_of cfg example_memory (example_vector 4096 4136 4160) = Inr (Some l)
     \<and> begin_addr l = 4096 \<and> element_size l = 4 \<and> elem_type l = Some example_int_type
     \<and> size_v l = 10 \<and> capacity l = Some 16
     \<and> values_v l = [''4096'', ''[unavailable]'', ''4104''] \<and> truncated l"
  using vector_locals_of_resolved [where cfg = cfg and mem = example_memory,
      OF refl refl refl refl refl refl
      example_vector_fields(1) [of 4096 4136 4160] example_vector_fields(2) [of 4096 4136 4160]]
    assms
  by auto

lemma join_nonempty:
  "x \<in> set xs \<Longrightarrow> x \<noteq> [] \<Longrightarrow> join sep xs \<noteq> []"
  by (induction sep xs rule: join.induct) auto

lemma vector_format_elements:
  assumes "size_v l \<noteq> 0" and "values_v l \<noteq> []"
  shows "vector_format cfg l =
     color cfg GREEN @ ''size = '' @ str_int (size_v l) @ color cfg RESET @ '', '' @
     color cfg GREEN @
       (case capacity l of Some c \<Rightarrow> ''capacity = '' @ str_int c | None \<Rightarrow> ''capacity = ?'') @
     color cfg RESET @ '', '' @
     color cfg GREEN @
       (if begin_addr l \<noteq> 0 then ''data = 0x'' @ hex_int (begin_addr l) else ''data = null'') @
     color cfg RESET @ '', ['' @
     (if truncated l
      then (if join '', '' (map (colored_value cfg) (values_v l)) \<noteq> []
            then join '', '' (map (colored_value cfg) (values_v l)) @ '', ...'' else ''...'')
      else join '', '' (map (colored_value cfg) (values_v l))) @ '']''"
  using assms by (simp add: vector_format_def Let_def)

lemma example_untyped_no_end_fields [simp]:
  "get_child_member_by_names example_untyped_no_end begin_names = Some (example_struct [])"
  "get_child_member_by_names example_untyped_no_end end_names = None"
  by (simp_all add: example_untyped_no_end_def example_struct_def begin_names_def
      end_names_def GetChildMemberWithName_def invalid_value_def)

section \<open>The claims\<close>

text \<open>
  C5. For every linked container whose head pointer reads as address 0, the summary is the
  canonical empty result: the string \<^verbatim>\<open>size = 0, []\<close>, with no value and no truncation
  mark, returned before the traversal is called and whatever the item cap is.
\<close>

theorem null_head_gives_empty_summary:
  assumes "get_child_member_by_names valobj head_names = Some hp"
    and "get_raw_pointer hp = 0"
  shows "linear_container_summary_provider cfg traverse valobj = ''size = 0, []''"
  using assms get_child_member_by_names_valid [OF assms(1)]
  by (simp add: linear_container_summary_provider_def truthy_def)

theorem null_head_gives_empty_summary_witness:
  "get_child_member_by_names (example_list 0) head_names = Some (example_pointer 0)
   \<and> get_raw_pointer (example_pointer 0) = 0
   \<and> linear_container_summary_provider example_config example_traverse (example_list 0)
       = ''size = 0, []''"
proof -
  have h: "get_child_member_by_names (example_list 0) head_names = Some (example_pointer 0)"
    by (simp add: example_list_def example_struct_def example_pointer_def head_names_def
        GetChildMemberWithName_def)
  have z: "get_raw_pointer (example_pointer 0) = 0"
    by (simp add: get_raw_pointer_def example_pointer_def)
  show ?thesis
    using h z null_head_gives_empty_summary [OF h z, of example_config example_traverse]
    by simp
qed

text \<open>
  C1 as stated fails for a null begin pointer: with begin at 0, end at 40 and 4-byte
  elements the quotient is 10, and the provider reports length 0.
\<close>

theorem null_begin_length_counterexample:
  "get_child_member_by_names (example_vector 0 40 0) begin_names = Some (example_pointer 0)
   \<and> get_child_member_by_names (example_vector 0 40 0) end_names = Some (example_pointer 40)
   \<and> get_raw_pointer (example_pointer 40) \<ge> get_raw_pointer (example_pointer 0)
   \<and> element_size_of (example_pointer 0) > 0
   \<and> (get_raw_pointer (example_pointer 40) - get_raw_pointer (example_pointer 0))
        div element_size_of (example_pointer 0) = 10
   \<and> map_sum id (map_option size_v)
        (vector_locals_of example_config example_memory (example_vector 0 40 0)) = Inr (Some 0)
   \<and> vector_summary_provider example_config example_memory (example_vector 0 40 0)
        = Inr ''size = 0, capacity = ?, data = null, []''"
proof -
  obtain l where l: "vector_locals_of example_config example_memory (example_vector 0 40 0) = Inr (Some l)"
    and f: "begin_addr l = 0" "size_v l = 0" "capacity l = None" "values_v l = []" "truncated l = False"
    using vector_locals_of_resolved [where cfg = example_config and mem = example_memory,
        OF refl refl refl refl refl refl
        example_vector_fields(1) [of 0 40 0] example_vector_fields(2) [of 0 40 0]]
    by auto
  have "vector_format example_config l = ''size = 0, capacity = ?, data = null, []''"
    by (simp add: vector_format_def f color_def example_config_def)
  then show ?thesis
    using l f vector_summary_provider_resolved [OF l] by simp
qed

text \<open>
  C1, as the code has it. For every vector whose begin and end boundary pointers both
  resolve, the reported logical length equals (address(end) - address(begin)) divided by
  the element size when address(begin) is not 0, address(end) is at least address(begin)
  and the element size is positive, and equals 0 otherwise; it is never negative.
\<close>

theorem vector_length_formula:
  assumes "get_child_member_by_names valobj begin_names = Some bp"
    and "get_child_member_by_names valobj end_names = Some ep"
  shows "\<exists>l rest. vector_locals_of cfg mem valobj = Inr (Some l)
     \<and> vector_summary_provider cfg mem valobj =
         Inr (color cfg GREEN @ ''size = '' @ str_int (size_v l) @ color cfg RESET @ rest)
     \<and> size_v l =
         (if get_raw_pointer bp \<noteq> 0 \<and> get_raw_pointer ep \<ge> get_raw_pointer bp
             \<and> element_size_of bp > 0
          then (get_raw_pointer ep - get_raw_pointer bp) div element_size_of bp else 0)
     \<and> 0 \<le> size_v l"
proof -
  obtain l where l: "vector_locals_of cfg mem valobj = Inr (Some l)"
    and sz: "size_v l =
      (if get_raw_pointer bp \<noteq> 0 \<and> get_raw_pointer ep \<noteq> 0 \<and> element_size_of bp > 0
          \<and> get_raw_pointer ep \<ge> get_raw_pointer bp
       then (get_raw_pointer ep - get_raw_pointer bp) div element_size_of bp else 0)"
    using vector_locals_of_resolved [OF refl refl refl refl refl refl assms, of cfg mem]
    by blast
  have nn: "0 \<le> get_raw_pointer bp" by (rule get_raw_pointer_nonneg)
  have f: "size_v l =
         (if get_raw_pointer bp \<noteq> 0 \<and> get_raw_pointer ep \<ge> get_raw_pointer bp
             \<and> element_size_of bp > 0
          then (get_raw_pointer ep - get_raw_pointer bp) div element_size_of bp else 0)"
    using sz nn by auto
  have p: "0 \<le> size_v l"
    using f by (simp add: pos_imp_zdiv_nonneg_iff)
  obtain elements where "vector_format cfg l =
     color cfg GREEN @ ''size = '' @ str_int (size_v l) @ color cfg RESET @ '', '' @
     color cfg GREEN @
       (case capacity l of Some c \<Rightarrow> ''capacity = '' @ str_int c | None \<Rightarrow> ''capacity = ?'') @
     color cfg RESET @ '', '' @
     color cfg GREEN @
       (if begin_addr l \<noteq> 0 then ''data = 0x'' @ hex_int (begin_addr l) else ''data = null'') @
     color cfg RESET @ '', ['' @ elements @ '']''"
    using vector_format_shape by blast
  then have "\<exists>rest. vector_summary_provider cfg mem valobj =
         Inr (color cfg GREEN @ ''size = '' @ str_int (size_v l) @ color cfg RESET @ rest)"
    using vector_summary_provider_resolved [OF l] by simp
  then show ?thesis using l f p by blast
qed

theorem vector_length_formula_witness:
  "get_child_member_by_names (example_vector 4096 4136 4160) begin_names
     = Some (example_pointer 4096)
   \<and> get_child_member_by_names (example_vector 4096 4136 4160) end_names
     = Some (example_pointer 4136)
   \<and> (\<exists>l rest. vector_locals_of example_config example_memory (example_vector 4096 4136 4160)
         = Inr (Some l)
       \<and> vector_summary_provider example_config example_memory (example_vector 4096 4136 4160)
         = Inr (''size = 10'' @ rest)
       \<and> size_v l = 10)"
proof -
  have b: "get_child_member_by_names (example_vector 4096 4136 4160) begin_names
     = Some (example_pointer 4096)" by simp
  have e: "get_child_member_by_names (example_vector 4096 4136 4160) end_names
     = Some (example_pointer 4136)" by simp
  show ?thesis
    using b e vector_length_formula [OF b e, of example_config example_memory]
    by (auto simp: color_def example_config_def)
qed

text \<open>
  C2, as the code has it. For every vector whose begin and end pointers resolve, capacity is
  reported as (address(capEnd) - address(begin)) divided by the element size exactly when a
  capacity-end pointer was recovered, its address is not 0, the element size is positive
  and address(capEnd) is at least address(begin); in every other such case capacity is
  reported as unknown (\<^verbatim>\<open>capacity = ?\<close>), and no exception is raised.
\<close>

theorem vector_capacity_formula:
  assumes "get_child_member_by_names valobj begin_names = Some bp"
    and "get_child_member_by_names valobj end_names = Some ep"
  shows "\<exists>l rest. vector_locals_of cfg mem valobj = Inr (Some l)
     \<and> capacity l =
         (case extract_vector_end_cap_pointer (get_child_member_by_names valobj end_cap_names) of
            None \<Rightarrow> None
          | Some cp \<Rightarrow>
              if get_raw_pointer cp \<noteq> 0 \<and> element_size_of bp > 0
                 \<and> get_raw_pointer cp \<ge> get_raw_pointer bp
              then Some ((get_raw_pointer cp - get_raw_pointer bp) div element_size_of bp)
              else None)
     \<and> vector_summary_provider cfg mem valobj =
         Inr (color cfg GREEN @ ''size = '' @ str_int (size_v l) @ color cfg RESET @ '', '' @
              color cfg GREEN @
              (case capacity l of
                 Some c \<Rightarrow> ''capacity = '' @ str_int c
               | None \<Rightarrow> ''capacity = ?'') @
              color cfg RESET @ rest)"
proof -
  obtain l where l: "vector_locals_of cfg mem valobj = Inr (Some l)"
    and c: "capacity l =
         (case extract_vector_end_cap_pointer (get_child_member_by_names valobj end_cap_names) of
            None \<Rightarrow> None
          | Some cp \<Rightarrow>
              if get_raw_pointer cp \<noteq> 0 \<and> element_size_of bp > 0
                 \<and> get_raw_pointer cp \<ge> get_raw_pointer bp
              then Some ((get_raw_pointer cp - get_raw_pointer bp) div element_size_of bp)
              else None)"
    using vector_locals_of_resolved [OF refl refl refl refl refl refl assms, of cfg mem]
    by blast
  obtain elements where "vector_format cfg l =
     color cfg GREEN @ ''size = '' @ str_int (size_v l) @ color cfg RESET @ '', '' @
     color cfg GREEN @
       (case capacity l of Some c \<Rightarrow> ''capacity = '' @ str_int c | None \<Rightarrow> ''capacity = ?'') @
     color cfg RESET @ '', '' @
     color cfg GREEN @
       (if begin_addr l \<noteq> 0 then ''data = 0x'' @ hex_int (begin_addr l) else ''data = null'') @
     color cfg RESET @ '', ['' @ elements @ '']''"
    using vector_format_shape by blast
  then have "\<exists>rest. vector_summary_provider cfg mem valobj =
         Inr (color cfg GREEN @ ''size = '' @ str_int (size_v l) @ color cfg RESET @ '', '' @
              color cfg GREEN @
              (case capacity l of
                 Some c \<Rightarrow> ''capacity = '' @ str_int c
               | None \<Rightarrow> ''capacity = ?'') @
              color cfg RESET @ rest)"
    using vector_summary_provider_resolved [OF l] by simp
  then show ?thesis using l c by blast
qed

theorem vector_capacity_formula_witness:
  "get_child_member_by_names (example_vector 8192 8224 8240) begin_names
     = Some (example_pointer 8192)
   \<and> get_child_member_by_names (example_vector 8192 8224 8240) end_names
     = Some (example_pointer 8224)
   \<and> (\<exists>l rest. vector_locals_of example_config example_memory (example_vector 8192 8224 8240)
         = Inr (Some l)
       \<and> capacity l = Some 12
       \<and> vector_summary_provider example_config example_memory (example_vector 8192 8224 8240)
         = Inr (''size = '' @ str_int (size_v l) @ '', capacity = 12'' @ rest))"
proof -
  have b: "get_child_member_by_names (example_vector 8192 8224 8240) begin_names
     = Some (example_pointer 8192)" by simp
  have e: "get_child_member_by_names (example_vector 8192 8224 8240) end_names
     = Some (example_pointer 8224)" by simp
  have s: "str_int 12 = ''12''"
    by (simp add: str_int_def digits.simps digit_char_def)
  show ?thesis
    using b e vector_capacity_formula [OF b e, of example_config example_memory]
    by (auto simp: color_def example_config_def s)
qed

text \<open>
  C2 as stated fails for the all-null vector: the capacity-end pointer is recovered, the
  element size is 4 and address(capEnd) = address(begin) = 0, so the stated capacity is 0,
  and the provider reports it as unknown.
\<close>

theorem null_capacity_end_counterexample:
  "extract_vector_end_cap_pointer
      (get_child_member_by_names (example_vector 0 0 0) end_cap_names) = Some (example_pointer 0)
   \<and> get_child_member_by_names (example_vector 0 0 0) begin_names = Some (example_pointer 0)
   \<and> element_size_of (example_pointer 0) > 0
   \<and> get_raw_pointer (example_pointer 0) \<ge> get_raw_pointer (example_pointer 0)
   \<and> map_sum id (map_option capacity)
        (vector_locals_of example_config example_memory (example_vector 0 0 0)) = Inr (Some None)
   \<and> vector_summary_provider example_config example_memory (example_vector 0 0 0)
        = Inr ''size = 0, capacity = ?, data = null, []''"
proof -
  obtain l where l: "vector_locals_of example_config example_memory (example_vector 0 0 0) = Inr (Some l)"
    and f: "begin_addr l = 0" "size_v l = 0" "capacity l = None" "values_v l = []" "truncated l = False"
    using vector_locals_of_resolved [where cfg = example_config and mem = example_memory,
        OF refl refl refl refl refl refl
        example_vector_fields(1) [of 0 0 0] example_vector_fields(2) [of 0 0 0]]
    by auto
  have "vector_format example_config l = ''size = 0, capacity = ?, data = null, []''"
    by (simp add: vector_format_def f color_def example_config_def)
  then show ?thesis
    using l f vector_summary_provider_resolved [OF l] by simp
qed

text \<open>
  C10. For every vector whose begin pointer reads as address 0 (with both boundary fields
  resolved), the provider reports \<^verbatim>\<open>size = 0\<close> and \<^verbatim>\<open>data = null\<close> and no element,
  whatever the end pointer holds.
\<close>

theorem null_begin_reports_empty:
  assumes "get_child_member_by_names valobj begin_names = Some bp"
    and "get_child_member_by_names valobj end_names = Some ep"
    and "get_raw_pointer bp = 0"
  shows "\<exists>l. vector_locals_of cfg mem valobj = Inr (Some l)
     \<and> size_v l = 0 \<and> begin_addr l = 0 \<and> values_v l = [] \<and> \<not> truncated l
     \<and> vector_summary_provider cfg mem valobj =
         Inr (color cfg GREEN @ ''size = 0'' @ color cfg RESET @ '', '' @
              color cfg GREEN @
              (case capacity l of
                 Some c \<Rightarrow> ''capacity = '' @ str_int c
               | None \<Rightarrow> ''capacity = ?'') @
              color cfg RESET @ '', '' @
              color cfg GREEN @ ''data = null'' @ color cfg RESET @ '', []'')"
proof -
  obtain l where l: "vector_locals_of cfg mem valobj = Inr (Some l)"
    and f: "size_v l = 0" "begin_addr l = 0" "values_v l = []" "\<not> truncated l"
    using vector_locals_of_resolved [OF refl refl refl refl refl refl assms(1,2), of cfg mem]
      assms(3)
    by (auto split: option.splits)
  have "vector_format cfg l =
         color cfg GREEN @ ''size = 0'' @ color cfg RESET @ '', '' @
              color cfg GREEN @
              (case capacity l of
                 Some c \<Rightarrow> ''capacity = '' @ str_int c
               | None \<Rightarrow> ''capacity = ?'') @
              color cfg RESET @ '', '' @
              color cfg GREEN @ ''data = null'' @ color cfg RESET @ '', []''"
    by (simp add: vector_format_def f)
  then show ?thesis
    using l f vector_summary_provider_resolved [OF l] by simp
qed

theorem null_begin_reports_empty_witness:
  "get_child_member_by_names (example_vector 0 40 8) begin_names = Some (example_pointer 0)
   \<and> get_child_member_by_names (example_vector 0 40 8) end_names = Some (example_pointer 40)
   \<and> get_raw_pointer (example_pointer 0) = 0
   \<and> vector_summary_provider example_config example_memory (example_vector 0 40 8)
       = Inr ''size = 0, capacity = 2, data = null, []''"
proof -
  have b: "get_child_member_by_names (example_vector 0 40 8) begin_names
     = Some (example_pointer 0)" by simp
  have e: "get_child_member_by_names (example_vector 0 40 8) end_names
     = Some (example_pointer 40)" by simp
  have z: "get_raw_pointer (example_pointer 0) = 0" by simp
  obtain l where l: "vector_locals_of example_config example_memory (example_vector 0 40 8) = Inr (Some l)"
    and c: "capacity l = Some 2"
    using vector_locals_of_resolved [where cfg = example_config and mem = example_memory,
        OF refl refl refl refl refl refl b e]
    by auto
  show ?thesis
    using b e z l c null_begin_reports_empty [OF b e z, of example_config example_memory]
    by (auto simp: color_def example_config_def)
qed

text \<open>
  C7, as the code has it. For every vector whose begin and end fields both resolve and
  whose begin pointer is not pointer-typed or whose derived element size is 0, the provider
  reports length 0 and an unknown capacity; and for every input whatsoever the provider
  returns a string, so that no division ever meets a zero divisor.
\<close>

theorem zero_element_size_reports_empty:
  assumes "get_child_member_by_names valobj begin_names = Some bp"
    and "get_child_member_by_names valobj end_names = Some ep"
    and "\<not> IsPointerType (GetType bp) \<or> element_size_of bp = 0"
  shows "(\<exists>l rest. vector_locals_of cfg mem valobj = Inr (Some l)
       \<and> size_v l = 0 \<and> capacity l = None \<and> values_v l = []
       \<and> vector_summary_provider cfg mem valobj =
           Inr (color cfg GREEN @ ''size = 0'' @ color cfg RESET @ '', '' @
                color cfg GREEN @ ''capacity = ?'' @ color cfg RESET @ rest))
     \<and> compute_size b e 0 = Inr 0
     \<and> compute_capacity cp b 0 = Inr None
     \<and> (\<exists>s. vector_summary_provider cfg' mem' valobj' = Inr s)"
proof -
  have es: "element_size_of bp = 0"
    using assms(3) element_size_of_not_pointer by blast
  obtain l where l: "vector_locals_of cfg mem valobj = Inr (Some l)"
    and f: "size_v l = 0" "capacity l = None" "values_v l = []"
    using vector_locals_of_resolved [OF refl refl refl refl refl refl assms(1,2), of cfg mem] es
    by (auto split: option.splits)
  obtain elements where "vector_format cfg l =
     color cfg GREEN @ ''size = '' @ str_int (size_v l) @ color cfg RESET @ '', '' @
     color cfg GREEN @
       (case capacity l of Some c \<Rightarrow> ''capacity = '' @ str_int c | None \<Rightarrow> ''capacity = ?'') @
     color cfg RESET @ '', '' @
     color cfg GREEN @
       (if begin_addr l \<noteq> 0 then ''data = 0x'' @ hex_int (begin_addr l) else ''data = null'') @
     color cfg RESET @ '', ['' @ elements @ '']''"
    using vector_format_shape by blast
  then have "\<exists>rest. vector_summary_provider cfg mem valobj =
           Inr (color cfg GREEN @ ''size = 0'' @ color cfg RESET @ '', '' @
                color cfg GREEN @ ''capacity = ?'' @ color cfg RESET @ rest)"
    using vector_summary_provider_resolved [OF l] f by simp
  moreover have "compute_size b e 0 = Inr 0"
    by (simp add: compute_size_Inr)
  moreover have "compute_capacity cp b 0 = Inr None"
    by (simp add: compute_capacity_Inr split: option.splits)
  ultimately show ?thesis
    using l f vector_summary_provider_no_exception [of cfg' mem' valobj'] by blast
qed

theorem zero_element_size_reports_empty_witness:
  "get_child_member_by_names example_untyped_vector begin_names = Some (example_struct [])
   \<and> get_child_member_by_names example_untyped_vector end_names = Some (example_pointer 40)
   \<and> \<not> IsPointerType (GetType (example_struct []))
   \<and> (\<exists>rest. vector_summary_provider example_config example_memory example_untyped_vector
         = Inr (''size = 0, capacity = ?'' @ rest))"
proof -
  have b: "get_child_member_by_names example_untyped_vector begin_names
     = Some (example_struct [])" by simp
  have e: "get_child_member_by_names example_untyped_vector end_names
     = Some (example_pointer 40)" by simp
  have n: "\<not> IsPointerType (GetType (example_struct []))"
    by (simp add: example_struct_def)
  show ?thesis
    using b e n
      zero_element_size_reports_empty [OF b e disjI1 [OF n],
        where cfg = example_config and mem = example_memory and b = 0 and e = 0
          and cp = None and cfg' = example_config and mem' = example_memory
          and valobj' = example_untyped_vector]
    by auto
qed

text \<open>
  C6 as stated fails: for a vector without an end field the provider reports no length and
  no element set at all; it returns the error string.
\<close>

theorem missing_end_counterexample:
  "get_child_member_by_names example_no_end end_names = None
   \<and> vector_locals_of example_config example_memory example_no_end = Inr None
   \<and> vector_summary_provider example_config example_memory example_no_end
       = Inr ''Error: Could not locate vector storage pointers.''"
  using vector_locals_of_unresolved [OF disjI2 [OF example_no_end_fields(2)],
      of example_config example_memory]
  by (simp add: vector_summary_provider_def)

text \<open>
  C6, as the code has it. For every vector input where the begin boundary or the end
  boundary is absent, the provider computes no length, capacity or element set and returns
  the error string \<^verbatim>\<open>Error: Could not locate vector storage pointers.\<close>
\<close>

theorem missing_boundary_is_error:
  assumes "get_child_member_by_names valobj begin_names = None
     \<or> get_child_member_by_names valobj end_names = None"
  shows "vector_locals_of cfg mem valobj = Inr None
     \<and> vector_summary_provider cfg mem valobj
         = Inr ''Error: Could not locate vector storage pointers.''"
  using vector_locals_of_unresolved [OF assms, of cfg mem]
  by (simp add: vector_summary_provider_def)

theorem missing_boundary_is_error_witness:
  "get_child_member_by_names (example_struct []) begin_names = None
   \<and> vector_summary_provider example_config example_memory (example_struct [])
       = Inr ''Error: Could not locate vector storage pointers.''"
proof -
  have b: "get_child_member_by_names (example_struct []) begin_names = None"
    by (simp add: example_struct_def begin_names_def GetChildMemberWithName_def
        invalid_value_def)
  show ?thesis
    using b missing_boundary_is_error [OF disjI1 [OF b], of example_config example_memory]
    by simp
qed

text \<open>
  C9. The error string is returned exactly on total failure: by the provider for linked
  containers exactly when no head field resolves, and by the vector provider exactly when
  the begin or the end field does not resolve. In every other case the result is a summary
  string, which ends with the closing bracket of its element list.
\<close>

theorem error_string_iff_total_failure:
  "((linear_container_summary_provider cfg traverse lst
        = ''Error: Could not find head pointer member.'')
      = (get_child_member_by_names lst head_names = None))
   \<and> (get_child_member_by_names lst head_names \<noteq> None \<longrightarrow>
        linear_container_summary_provider cfg traverse lst = ''size = 0, []''
        \<or> (\<exists>size_str summary_str. linear_container_summary_provider cfg traverse lst =
              color cfg GREEN @ size_str @ color cfg RESET @ '', ['' @ summary_str @ '']''))
   \<and> ((vector_summary_provider cfg mem vec
        = Inr ''Error: Could not locate vector storage pointers.'')
      = (get_child_member_by_names vec begin_names = None
         \<or> get_child_member_by_names vec end_names = None))
   \<and> (get_child_member_by_names vec begin_names \<noteq> None
        \<and> get_child_member_by_names vec end_names \<noteq> None \<longrightarrow>
        (\<exists>l. vector_summary_provider cfg mem vec = Inr (vector_format cfg l)
           \<and> last (vector_format cfg l) = CHR '']''))"
proof -
  have A: "(linear_container_summary_provider cfg traverse lst
        = ''Error: Could not find head pointer member.'')
      = (get_child_member_by_names lst head_names = None)"
  proof (cases "get_child_member_by_names lst head_names")
    case None
    then show ?thesis using linear_unresolved by simp
  next
    case (Some hp)
    from linear_summary_last [OF this, of cfg traverse]
    have "linear_container_summary_provider cfg traverse lst
        \<noteq> ''Error: Could not find head pointer member.''" by auto
    then show ?thesis using Some by simp
  qed
  have B: "get_child_member_by_names lst head_names \<noteq> None \<longrightarrow>
        linear_container_summary_provider cfg traverse lst = ''size = 0, []''
        \<or> (\<exists>size_str summary_str. linear_container_summary_provider cfg traverse lst =
              color cfg GREEN @ size_str @ color cfg RESET @ '', ['' @ summary_str @ '']'')"
    using linear_summary_shape [of lst _ cfg traverse] by auto
  have D: "\<exists>l. vector_summary_provider cfg mem vec = Inr (vector_format cfg l)
           \<and> last (vector_format cfg l) = CHR '']''"
    if "get_child_member_by_names vec begin_names \<noteq> None
        \<and> get_child_member_by_names vec end_names \<noteq> None"
  proof -
    from that obtain bp ep where "get_child_member_by_names vec begin_names = Some bp"
      "get_child_member_by_names vec end_names = Some ep" by auto
    from vector_locals_of_resolved [OF refl refl refl refl refl refl this, of cfg mem]
    obtain l where "vector_locals_of cfg mem vec = Inr (Some l)" by blast
    then show ?thesis
      using vector_summary_provider_resolved last_vector_format by blast
  qed
  have C: "(vector_summary_provider cfg mem vec
        = Inr ''Error: Could not locate vector storage pointers.'')
      = (get_child_member_by_names vec begin_names = None
         \<or> get_child_member_by_names vec end_names = None)"
  proof (cases "get_child_member_by_names vec begin_names = None
         \<or> get_child_member_by_names vec end_names = None")
    case True
    from vector_locals_of_unresolved [OF this, of cfg mem] True show ?thesis
      by (simp add: vector_summary_provider_def)
  next
    case False
    then obtain l where "vector_summary_provider cfg mem vec = Inr (vector_format cfg l)"
      and "last (vector_format cfg l) = CHR '']''"
      using D by auto
    then have "vector_summary_provider cfg mem vec
        \<noteq> Inr ''Error: Could not locate vector storage pointers.''" by auto
    then show ?thesis using False by simp
  qed
  show ?thesis using A B C D by blast
qed


theorem error_string_iff_total_failure_witness:
  "get_child_member_by_names (example_list 0) head_names \<noteq> None
   \<and> get_child_member_by_names (example_vector 4096 4136 4160) begin_names \<noteq> None
   \<and> get_child_member_by_names (example_vector 4096 4136 4160) end_names \<noteq> None
   \<and> linear_container_summary_provider example_config example_traverse (example_list 0)
       \<noteq> ''Error: Could not find head pointer member.''
   \<and> vector_summary_provider example_config example_memory (example_vector 4096 4136 4160)
       \<noteq> Inr ''Error: Could not locate vector storage pointers.''
   \<and> (\<exists>l. vector_summary_provider example_config example_memory
             (example_vector 4096 4136 4160) = Inr (vector_format example_config l))"
  using error_string_iff_total_failure [of example_config example_traverse "example_list 0"
      example_memory "example_vector 4096 4136 4160"]
  by auto

text \<open>
  C3 as stated fails on the order of the two named stages: in a wrapper whose first name
  leads to a pointer two levels deep and whose second name is a pointer one level deep, the
  one-level stage of the specification succeeds with the second name, and the code returns
  the pointer found two levels deep under the first name.
\<close>

theorem interleaved_probe_counterexample:
  "spec_one_level example_wrapper = Some (example_pointer 64)
   \<and> spec_layered_unwrap (Some example_wrapper) = Some (example_pointer 64)
   \<and> extract_vector_end_cap_pointer (Some example_wrapper) = Some (example_pointer 48)
   \<and> extract_vector_end_cap_pointer (Some example_wrapper)
       \<noteq> spec_layered_unwrap (Some example_wrapper)"
proof -
  have one: "spec_one_level example_wrapper = Some (example_pointer 64)"
    by (simp add: spec_one_level_def example_wrapper_def example_struct_def
        wrapper_names_def GetChildMemberWithName_def example_pointer_def
        example_pointer_type_def is_pointer_value_def)
  have spec: "spec_layered_unwrap (Some example_wrapper) = Some (example_pointer 64)"
    by (simp add: spec_layered_unwrap_def one direct_pointer_def)
      (simp add: example_wrapper_def example_struct_def)
  have "example_pointer 48 \<noteq> example_pointer 64"
    by (simp add: example_pointer_def)
  then show ?thesis
    using one spec example_wrapper_extract by simp
qed

text \<open>
  C3, as the code has it. For every capacity-boundary candidate value, the resolver returns
  the first success of three strategies, in this order: the candidate itself when it is
  pointer-typed; otherwise the fixed wrapper-field names in order, each tried one level deep
  and then two levels deep through that same child before the next name; otherwise the first
  pointer-typed structural child. An absent or invalid candidate, or failure at every stage,
  gives absence; whatever is returned is a valid pointer-typed value.
\<close>

theorem layered_unwrap_order:
  "extract_vector_end_cap_pointer x =
     (case x of
        None \<Rightarrow> None
      | Some v \<Rightarrow>
          if \<not> IsValid v then None
          else first_some [direct_pointer v, named_wrappers v, first_pointer_child v])
   \<and> (extract_vector_end_cap_pointer x = None
      \<or> (\<exists>p. extract_vector_end_cap_pointer x = Some p \<and> is_pointer_value p))"
proof -
  have "extract_vector_end_cap_pointer x =
     (case x of
        None \<Rightarrow> None
      | Some v \<Rightarrow>
          if \<not> IsValid v then None
          else first_some [direct_pointer v, named_wrappers v, first_pointer_child v])"
  proof (cases x)
    case None
    then show ?thesis by (simp add: extract_vector_end_cap_pointer_def)
  next
    case (Some v)
    show ?thesis
    proof (cases "named_wrappers v")
      case None
      then show ?thesis
        using Some
        by (simp add: extract_vector_end_cap_pointer_def direct_pointer_def
            probe_wrapper_names_first_some named_wrappers_def [symmetric] scan_children_find)
    next
      case (Some p)
      then show ?thesis
        using \<open>x = Some v\<close>
        by (simp add: extract_vector_end_cap_pointer_def direct_pointer_def
            probe_wrapper_names_first_some named_wrappers_def [symmetric] scan_children_find)
    qed
  qed
  moreover have "extract_vector_end_cap_pointer x = None
      \<or> (\<exists>p. extract_vector_end_cap_pointer x = Some p \<and> is_pointer_value p)"
    using extract_vector_end_cap_pointer_valid [of x]
    by (cases "extract_vector_end_cap_pointer x") (simp_all add: is_pointer_value_def)
  ultimately show ?thesis by blast
qed

theorem layered_unwrap_order_witness:
  "extract_vector_end_cap_pointer (Some example_wrapper) = Some (example_pointer 48)
   \<and> first_some [direct_pointer example_wrapper, named_wrappers example_wrapper,
        first_pointer_child example_wrapper] = Some (example_pointer 48)
   \<and> is_pointer_value (example_pointer 48)"
proof -
  have v: "IsValid example_wrapper"
    by (simp add: example_wrapper_def example_struct_def)
  show ?thesis
    using layered_unwrap_order [of "Some example_wrapper"] example_wrapper_extract v
    by simp
qed

text \<open>
  C4 as stated fails for a negative cap: under the cap -1 the vector of ten elements gets
  no element materialized, where min(10, -1) is -1, and the vector of no element is not
  flagged as truncated, although 0 > -1.
\<close>

theorem negative_cap_counterexample:
  "summary_max_items example_negative_config = - 1
   \<and> map_sum id (map_option size_v)
        (vector_locals_of example_negative_config example_memory
           (example_vector 4096 4136 4160)) = Inr (Some 10)
   \<and> map_sum id (map_option values_v)
        (vector_locals_of example_negative_config example_memory
           (example_vector 4096 4136 4160)) = Inr (Some [])
   \<and> min 10 (summary_max_items example_negative_config) = - 1
   \<and> map_sum id (map_option size_v)
        (vector_locals_of example_negative_config example_memory
           (example_vector 4096 4096 4160)) = Inr (Some 0)
   \<and> map_sum id (map_option truncated)
        (vector_locals_of example_negative_config example_memory
           (example_vector 4096 4096 4160)) = Inr (Some False)
   \<and> summary_max_items example_negative_config < 0"
proof -
  obtain l where "vector_locals_of example_negative_config example_memory
      (example_vector 4096 4136 4160) = Inr (Some l)" "size_v l = 10" "values_v l = []"
    using vector_locals_of_resolved [where cfg = example_negative_config
        and mem = example_memory, OF refl refl refl refl refl refl
        example_vector_fields(1) [of 4096 4136 4160]
        example_vector_fields(2) [of 4096 4136 4160]]
    by (auto simp: py_range_def)
  moreover obtain k where "vector_locals_of example_negative_config example_memory
      (example_vector 4096 4096 4160) = Inr (Some k)" "size_v k = 0" "truncated k = False"
    using vector_locals_of_resolved [where cfg = example_negative_config
        and mem = example_memory, OF refl refl refl refl refl refl
        example_vector_fields(1) [of 4096 4096 4160]
        example_vector_fields(2) [of 4096 4096 4160]]
    by auto
  ultimately show ?thesis by simp
qed

text \<open>
  C4, as the code has it. For every vector whose begin and end fields resolve, with logical
  length n, and every configured cap maxItems that is not negative, exactly
  min(n, maxItems) elements are materialized, the i-th being the rendering of what the
  debugger synthesizes under the label \<^verbatim>\<open>[i]\<close> at address begin + i * element_size with
  the pointee type of begin (absent when the debugger raises), and the truncated flag is
  true if and only if n > maxItems.
\<close>

theorem materialized_window:
  assumes "get_child_member_by_names valobj begin_names = Some bp"
    and "get_child_member_by_names valobj end_names = Some ep"
    and "0 \<le> summary_max_items cfg"
  shows "\<exists>l. vector_locals_of cfg mem valobj = Inr (Some l)
     \<and> begin_addr l = get_raw_pointer bp \<and> element_size l = element_size_of bp
     \<and> int (length (values_v l)) = min (size_v l) (summary_max_items cfg)
     \<and> (\<forall>i < length (values_v l). \<exists>t. elem_type_of bp = Some t \<and> values_v l ! i =
           get_value_summary
             (case mem (''['' @ str_int (int i) @ '']'')
                     (get_raw_pointer bp + int i * element_size_of bp) t of
                Inl ex \<Rightarrow> None
              | Inr v \<Rightarrow> Some v))
     \<and> truncated l = (size_v l > summary_max_items cfg)"
proof -
  obtain l where l: "vector_locals_of cfg mem valobj = Inr (Some l)"
    and f: "begin_addr l = get_raw_pointer bp" "element_size l = element_size_of bp"
      "elem_type l = elem_type_of bp"
    using vector_locals_of_resolved [OF refl refl refl refl refl refl assms(1,2), of cfg mem]
    by blast
  have "int (length (values_v l)) = min (size_v l) (summary_max_items cfg)"
    using vector_window(1,2) [OF l] assms(3) by simp
  moreover have "truncated l = (size_v l > summary_max_items cfg)"
    using vector_window(3) [OF l] assms(3) by auto
  moreover have "\<forall>i < length (values_v l). \<exists>t. elem_type_of bp = Some t \<and> values_v l ! i =
           get_value_summary
             (case mem (''['' @ str_int (int i) @ '']'')
                     (get_raw_pointer bp + int i * element_size_of bp) t of
                Inl ex \<Rightarrow> None
              | Inr v \<Rightarrow> Some v)"
    using vector_window(4) [OF l] f by (auto simp: create_element_def)
  ultimately show ?thesis using l f by blast
qed

theorem materialized_window_witness:
  "get_child_member_by_names (example_vector 4096 4136 4160) begin_names
     = Some (example_pointer 4096)
   \<and> get_child_member_by_names (example_vector 4096 4136 4160) end_names
     = Some (example_pointer 4136)
   \<and> 0 \<le> summary_max_items example_config
   \<and> (\<exists>l. vector_locals_of example_config example_memory (example_vector 4096 4136 4160)
          = Inr (Some l)
        \<and> size_v l = 10
        \<and> int (length (values_v l)) = 3
        \<and> values_v l = [''4096'', ''[unavailable]'', ''4104'']
        \<and> truncated l)
   \<and> vector_summary_provider example_config example_memory (example_vector 4096 4136 4160)
       = Inr ''size = 10, capacity = 16, data = 0x1000, [4096, [unavailable], 4104, ...]''"
proof -
  have b: "get_child_member_by_names (example_vector 4096 4136 4160) begin_names
     = Some (example_pointer 4096)" by simp
  have e: "get_child_member_by_names (example_vector 4096 4136 4160) end_names
     = Some (example_pointer 4136)" by simp
  have n: "0 \<le> summary_max_items example_config" by simp
  obtain l where l: "vector_locals_of example_config example_memory
      (example_vector 4096 4136 4160) = Inr (Some l)"
    and f: "begin_addr l = 4096" "size_v l = 10" "capacity l = Some 16"
      "values_v l = [''4096'', ''[unavailable]'', ''4104'']" "truncated l"
    using example_vector_window [of example_config] by auto
  from materialized_window [OF b e n, of example_memory] l f
  have w: "int (length (values_v l)) = 3" by auto
  have "vector_format example_config l
      = ''size = 10, capacity = 16, data = 0x1000, [4096, [unavailable], 4104, ...]''"
    by (simp add: vector_format_def f colored_value_def startswith_def)
  then show ?thesis
    using b e n l f w vector_summary_provider_resolved [OF l] by auto
qed

text \<open>
  C7 as stated fails when the end field is missing: for a vector whose begin field is not
  pointer-typed and that has no end field, the provider reports no length and no capacity;
  it returns the error string.
\<close>

theorem untyped_begin_without_end_counterexample:
  "get_child_member_by_names example_untyped_no_end begin_names = Some (example_struct [])
   \<and> \<not> IsPointerType (GetType (example_struct []))
   \<and> element_size_of (example_struct []) = 0
   \<and> vector_locals_of example_config example_memory example_untyped_no_end = Inr None
   \<and> vector_summary_provider example_config example_memory example_untyped_no_end
       = Inr ''Error: Could not locate vector storage pointers.''"
proof -
  have n: "\<not> IsPointerType (GetType (example_struct []))"
    by (simp add: example_struct_def)
  have l: "vector_locals_of example_config example_memory example_untyped_no_end = Inr None"
    using vector_locals_of_unresolved [OF disjI2 [OF example_untyped_no_end_fields(2)]] .
  show ?thesis
    using n l element_size_of_not_pointer [OF n]
    by (simp add: vector_summary_provider_def)
qed

text \<open>
  C8. For every element of the shown window whose materialization fails (the debugger
  raises at the computed address, or what it synthesizes is not valid or has no rendering),
  the computation does not abort: the provider returns its summary, whose element list is
  the whole window joined by commas; the window keeps its full length; the failed element's
  entry is the bracketed marker \<^verbatim>\<open>[unavailable]\<close>, wrapped in the error colour; and every
  entry of the window, before and after the failed one, is the rendering of what the
  debugger synthesizes at that entry's own address.
\<close>

theorem failed_element_is_marked:
  assumes "vector_locals_of cfg mem valobj = Inr (Some l)"
    and "int i < min (size_v l) (summary_max_items cfg)"
    and "elem_type l = Some t"
    and "case mem (''['' @ str_int (int i) @ '']'') (begin_addr l + int i * element_size l) t of
           Inl ex \<Rightarrow> True
         | Inr v \<Rightarrow> \<not> IsValid v \<or> rendering v = None"
  shows "vector_summary_provider cfg mem valobj =
       Inr (color cfg GREEN @ ''size = '' @ str_int (size_v l) @ color cfg RESET @ '', '' @
            color cfg GREEN @
              (case capacity l of
                 Some c \<Rightarrow> ''capacity = '' @ str_int c
               | None \<Rightarrow> ''capacity = ?'') @
            color cfg RESET @ '', '' @
            color cfg GREEN @
              (if begin_addr l \<noteq> 0 then ''data = 0x'' @ hex_int (begin_addr l)
               else ''data = null'') @
            color cfg RESET @ '', ['' @
            join '', '' (map (colored_value cfg) (values_v l)) @
            (if truncated l then '', ...'' else []) @ '']'')
     \<and> length (values_v l) = nat (min (size_v l) (summary_max_items cfg))
     \<and> values_v l ! i = ''[unavailable]''
     \<and> map (colored_value cfg) (values_v l) ! i
         = color cfg RED @ ''[unavailable]'' @ color cfg RESET
     \<and> (\<forall>j < length (values_v l). values_v l ! j =
           get_value_summary
             (case mem (''['' @ str_int (int j) @ '']'')
                     (begin_addr l + int j * element_size l) t of
                Inl ex \<Rightarrow> None
              | Inr v \<Rightarrow> Some v))"
proof -
  have len: "length (values_v l) = nat (min (size_v l) (summary_max_items cfg))"
    using vector_window(1) [OF assms(1)] .
  have all: "\<forall>j < length (values_v l). values_v l ! j =
           get_value_summary
             (case mem (''['' @ str_int (int j) @ '']'')
                     (begin_addr l + int j * element_size l) t of
                Inl ex \<Rightarrow> None
              | Inr v \<Rightarrow> Some v)"
    using vector_window(4) [OF assms(1)] assms(3) by (auto simp: create_element_def)
  have i: "i < length (values_v l)" using len assms(2) by linarith
  have "get_value_summary
          (case mem (''['' @ str_int (int i) @ '']'')
                  (begin_addr l + int i * element_size l) t of
             Inl ex \<Rightarrow> None
           | Inr v \<Rightarrow> Some v) = ''[unavailable]''"
    using assms(4) by (auto simp: get_value_summary_def split: sum.splits)
  then have m: "values_v l ! i = ''[unavailable]''"
    using all i by simp
  have c: "map (colored_value cfg) (values_v l) ! i
         = color cfg RED @ ''[unavailable]'' @ color cfg RESET"
    using i by (simp add: m colored_value_def startswith_def)
  have "map (colored_value cfg) (values_v l) ! i \<in> set (map (colored_value cfg) (values_v l))"
    using i by (intro nth_mem) simp
  moreover have "map (colored_value cfg) (values_v l) ! i \<noteq> []"
    using c by simp
  ultimately have j: "join '', '' (map (colored_value cfg) (values_v l)) \<noteq> []"
    by (rule join_nonempty)
  have "size_v l \<noteq> 0" and "values_v l \<noteq> []"
    using assms(2) i by auto
  from vector_format_elements [OF this, of cfg] j
  have "vector_format cfg l =
            color cfg GREEN @ ''size = '' @ str_int (size_v l) @ color cfg RESET @ '', '' @
            color cfg GREEN @
              (case capacity l of
                 Some c \<Rightarrow> ''capacity = '' @ str_int c
               | None \<Rightarrow> ''capacity = ?'') @
            color cfg RESET @ '', '' @
            color cfg GREEN @
              (if begin_addr l \<noteq> 0 then ''data = 0x'' @ hex_int (begin_addr l)
               else ''data = null'') @
            color cfg RESET @ '', ['' @
            join '', '' (map (colored_value cfg) (values_v l)) @
            (if truncated l then '', ...'' else []) @ '']''"
    by simp
  then show ?thesis
    using len all m c vector_summary_provider_resolved [OF assms(1)] by simp
qed

theorem failed_element_is_marked_witness:
  "\<exists>l. vector_locals_of example_color_config example_memory (example_vector 4096 4136 4160)
          = Inr (Some l)
     \<and> int 1 < min (size_v l) (summary_max_items example_color_config)
     \<and> elem_type l = Some example_int_type
     \<and> example_memory (''['' @ str_int (int 1) @ '']'')
          (begin_addr l + int 1 * element_size l) example_int_type
         = Inl (Exception ''unreadable'')
     \<and> values_v l = [''4096'', ''[unavailable]'', ''4104'']
     \<and> vector_summary_provider example_color_config example_memory
          (example_vector 4096 4136 4160)
         = Inr (''<g>size = 10<0>, <g>capacity = 16<0>, <g>data = 0x1000<0>, '' @
                ''[<y>4096<0>, <r>[unavailable]<0>, <y>4104<0>, ...]'')"
proof -
  obtain l where l: "vector_locals_of example_color_config example_memory
      (example_vector 4096 4136 4160) = Inr (Some l)"
    and f: "begin_addr l = 4096" "element_size l = 4" "elem_type l = Some example_int_type"
      "size_v l = 10" "capacity l = Some 16"
      "values_v l = [''4096'', ''[unavailable]'', ''4104'']" "truncated l"
    using example_vector_window [of example_color_config] by auto
  have w: "int 1 < min (size_v l) (summary_max_items example_color_config)"
    using f by simp
  have u: "example_memory (''['' @ str_int (int 1) @ '']'')
          (begin_addr l + int 1 * element_size l) example_int_type
         = Inl (Exception ''unreadable'')"
    by (simp add: f example_memory_def)
  have u': "case example_memory (''['' @ str_int (int 1) @ '']'')
          (begin_addr l + int 1 * element_size l) example_int_type of
           Inl ex \<Rightarrow> True
         | Inr v \<Rightarrow> \<not> IsValid v \<or> rendering v = None"
    by (simp only: u sum.case)
  from failed_element_is_marked [OF l w f(3) u']
  have "vector_summary_provider example_color_config example_memory
          (example_vector 4096 4136 4160)
         = Inr (''<g>size = 10<0>, <g>capacity = 16<0>, <g>data = 0x1000<0>, '' @
                ''[<y>4096<0>, <r>[unavailable]<0>, <y>4104<0>, ...]'')"
    by (simp add: f colored_value_def startswith_def)
  then show ?thesis using l w f u by auto
qed

end
